theory Spec2Isabelle
  imports Complex_Main
begin

section \<open>The world around \<open>hybrid_md/refit.py\<close>\<close>

text \<open>
  The module \<open>refit.py\<close> holds three functions: the resolver \<open>refit\<close>, the
  specialised strategy \<open>refit_turbo_si_c\<close> and the generic invoker
  \<open>refit_generic\<close>. All three work through effects: they import modules, read
  and write files, read the clock and start an external process. The embedding makes
  each effect a step on an explicit \<open>world\<close>, and every exception a value.

  What lies outside the repository is a parameter, collected in the record \<open>env\<close>:
  the modules Python can import, the parser and the printer of the structure file
  format (ASE), the external shell, the clock, the printing of a float, and the
  floating-point arithmetic. No float is computed by the embedding itself: the
  quotient of a double by a count and numpy's standard deviation are taken from
  \<open>env\<close>, so that a run of the model is a run of the code for whatever values,
  rounded or not finite, the arithmetic of the machine gives. A double is written as
  the real number it stands for, or as one of the infinities, or as \<open>nan\<close>.
\<close>

subsection \<open>Exceptions and values\<close>

datatype error =
    RuntimeError string
  | AssertionError
  | ValueError string
  | TypeError string
  | ModuleNotFoundError string
  | FileNotFoundError string
  | KeyError string
  | ZeroDivisionError
  | CalledProcessError int string string string
  | OtherError string

text \<open>The class of an exception, as \<open>type(e).__name__\<close> gives it.\<close>

fun exception_class :: "error \<Rightarrow> string" where
  "exception_class (RuntimeError _) = ''RuntimeError''"
| "exception_class AssertionError = ''AssertionError''"
| "exception_class (ValueError _) = ''ValueError''"
| "exception_class (TypeError _) = ''TypeError''"
| "exception_class (ModuleNotFoundError _) = ''ModuleNotFoundError''"
| "exception_class (FileNotFoundError _) = ''FileNotFoundError''"
| "exception_class (KeyError _) = ''KeyError''"
| "exception_class ZeroDivisionError = ''ZeroDivisionError''"
| "exception_class (CalledProcessError _ _ _ _) = ''CalledProcessError''"
| "exception_class (OtherError _) = ''Exception''"

datatype py_value = PyNone | PyInt int | PyStr string

datatype float64 = Finite real | PosInf | NegInf | NaN

text \<open>
  A number stored in \<open>at.info\<close> is a Python \<open>float\<close> or a \<open>numpy.float64\<close>
  (what ASE stores when it reads a file). Both hold a double; they differ in what a
  division by zero does.
\<close>

datatype number = PyFloat float64 | NumpyFloat64 float64

subsection \<open>Structures, files, the trace of effects\<close>

text \<open>
  Of an ASE \<open>Atoms\<close> object the code observes \<open>len(at)\<close> and the dictionary
  \<open>at.info\<close>.
\<close>

record atoms =
  natoms :: nat
  info :: "(string \<times> number) list"

type_synonym fs = "string \<rightharpoonup> string"

datatype event =
    ImportModule string
  | ReadStructures string
  | GetPreviousData
  | IsFile string
  | Move string string
  | WriteStructures string "atoms list"
  | Run string
  | WriteText string string

record world =
  files :: fs
  ticks :: nat
  trace :: "event list"

text \<open>
  \<open>HybridMD\<close> is defined in \<open>hybrid_md.state_objects\<close>; \<open>refit.py\<close> uses two
  attributes and one method of it. The method is code of the caller: it may read and
  change files, and it may raise.
\<close>

record hybrid_md =
  xyz_filename :: string
  refit_function_name :: "string option"
  get_previous_data :: "fs \<Rightarrow> (error + atoms list) \<times> fs"

type_synonym 'a io = "world \<Rightarrow> (error + 'a) \<times> world"

datatype attribute =
    Function "hybrid_md \<Rightarrow> py_value io"
  | NotCallable

type_synonym py_module = "string \<rightharpoonup> attribute"

record completed_process =
  returncode :: int
  stdout :: string
  stderr :: string

text \<open>
  In \<open>env\<close>, \<open>float_truediv x n\<close> is the double \<open>x / n\<close> for a double \<open>x\<close> and
  an integer \<open>n\<close>, as IEEE 754 arithmetic gives it (for \<open>n = 0\<close>, what numpy gives:
  an infinity or \<open>nan\<close>), and \<open>np_std xs\<close> is \<open>numpy.std(xs)\<close> with its
  default arguments.
\<close>

record env =
  find_module :: "string \<Rightarrow> error + py_module"
  parse_xyz :: "string \<Rightarrow> error + atoms list"
  format_xyz :: "atoms list \<Rightarrow> string"
  shell :: "string \<Rightarrow> fs \<Rightarrow> completed_process \<times> fs"
  clock :: "nat \<Rightarrow> real"
  str_real :: "real \<Rightarrow> string"
  float_truediv :: "float64 \<Rightarrow> nat \<Rightarrow> float64"
  np_std :: "float64 list \<Rightarrow> float64"

subsection \<open>Sequencing\<close>

definition io_return :: "'a \<Rightarrow> 'a io" where
  "io_return x = (\<lambda>w. (Inr x, w))"

definition io_bind :: "'a io \<Rightarrow> ('a \<Rightarrow> 'b io) \<Rightarrow> 'b io" where
  "io_bind m f = (\<lambda>w. case m w of (Inl e, w') \<Rightarrow> (Inl e, w') | (Inr x, w') \<Rightarrow> f x w')"

text \<open>A computation that touches nothing: it returns or raises.\<close>

definition io_lift :: "error + 'a \<Rightarrow> 'a io" where
  "io_lift r = (\<lambda>w. (r, w))"

definition log_event :: "event \<Rightarrow> world \<Rightarrow> world" where
  "log_event ev w = w\<lparr>trace := trace w @ [ev]\<rparr>"

subsection \<open>Python strings\<close>

text \<open>\<open>s.split(sep)\<close> with a one-character separator, and \<open>sep.join(parts)\<close>.\<close>

fun str_split :: "char \<Rightarrow> string \<Rightarrow> string list" where
  "str_split sep [] = [[]]"
| "str_split sep (c # cs) =
     (if c = sep then [] # str_split sep cs
      else (case str_split sep cs of
              p # ps \<Rightarrow> (c # p) # ps
            | [] \<Rightarrow> [[c]]))"

fun str_join :: "string \<Rightarrow> string list \<Rightarrow> string" where
  "str_join sep [] = []"
| "str_join sep [p] = p"
| "str_join sep (p # q # ps) = p @ sep @ str_join sep (q # ps)"

definition str_float :: "env \<Rightarrow> float64 \<Rightarrow> string" where
  "str_float env x =
     (case x of
        Finite r \<Rightarrow> str_real env r
      | PosInf \<Rightarrow> ''inf''
      | NegInf \<Rightarrow> ''-inf''
      | NaN \<Rightarrow> ''nan'')"

subsection \<open>The library calls\<close>

text \<open>
  \<open>importlib.import_module(name)\<close>: the empty name raises \<open>ValueError\<close>, a
  relative name without a package raises \<open>TypeError\<close>, any other name is looked up.
  Importing is modelled as a lookup: code that a module runs when it is loaded is
  outside the model.
\<close>

definition import_module :: "env \<Rightarrow> string \<Rightarrow> py_module io" where
  "import_module env name = (\<lambda>w.
     ((case name of
         [] \<Rightarrow> Inl (ValueError ''Empty module name'')
       | c # _ \<Rightarrow>
           if c = CHR ''.''
           then Inl (TypeError (''the 'package' argument is required to perform a relative import for '' @
                                  [CHR 0x27] @ name @ [CHR 0x27]))
           else find_module env name),
      log_event (ImportModule name) w))"

text \<open>\<open>ase.io.read(filename, ":")\<close>: every frame of the file.\<close>

definition ase_io_read :: "env \<Rightarrow> string \<Rightarrow> atoms list io" where
  "ase_io_read env filename = (\<lambda>w.
     ((case files w filename of
         None \<Rightarrow> Inl (FileNotFoundError filename)
       | Some text \<Rightarrow> parse_xyz env text),
      log_event (ReadStructures filename) w))"

definition ase_io_write :: "env \<Rightarrow> string \<Rightarrow> atoms list \<Rightarrow> unit io" where
  "ase_io_write env filename images = (\<lambda>w.
     (Inr (),
      log_event (WriteStructures filename images)
        (w\<lparr>files := (files w)(filename \<mapsto> format_xyz env images)\<rparr>)))"

definition call_get_previous_data :: "hybrid_md \<Rightarrow> atoms list io" where
  "call_get_previous_data state = (\<lambda>w.
     (case get_previous_data state (files w) of
        (r, fs') \<Rightarrow> (r, log_event GetPreviousData (w\<lparr>files := fs'\<rparr>))))"

definition os_path_isfile :: "string \<Rightarrow> bool io" where
  "os_path_isfile path = (\<lambda>w. (Inr (files w path \<noteq> None), log_event (IsFile path) w))"

text \<open>
  \<open>shutil.move(src, dst)\<close> for two file names: a rename, which replaces a file that
  is already stored under \<open>dst\<close>.
\<close>

definition shutil_move :: "string \<Rightarrow> string \<Rightarrow> unit io" where
  "shutil_move src dst = (\<lambda>w.
     (case files w src of
        None \<Rightarrow> (Inl (FileNotFoundError src), log_event (Move src dst) w)
      | Some content \<Rightarrow>
          (Inr (),
           log_event (Move src dst)
             (w\<lparr>files := ((files w)(src := None))(dst \<mapsto> content)\<rparr>))))"

text \<open>\<open>time()\<close>: the next reading of the clock.\<close>

definition time :: "env \<Rightarrow> real io" where
  "time env = (\<lambda>w. (Inr (clock env (ticks w)), w\<lparr>ticks := Suc (ticks w)\<rparr>))"

text \<open>
  \<open>subprocess.run(cmd, shell=True, capture_output=True, text=True, check=True)\<close>:
  the process runs to its end on the files as they are; a non-zero exit status raises
  \<open>CalledProcessError\<close>, which holds the status, the command and both captured
  streams.
\<close>

definition subprocess_run :: "env \<Rightarrow> string \<Rightarrow> completed_process io" where
  "subprocess_run env cmd = (\<lambda>w.
     (case shell env cmd (files w) of
        (proc, fs') \<Rightarrow>
          ((if returncode proc \<noteq> 0
            then Inl (CalledProcessError (returncode proc) cmd (stdout proc) (stderr proc))
            else Inr proc),
           log_event (Run cmd) (w\<lparr>files := fs'\<rparr>))))"

text \<open>\<open>with open(name, "w") as file: file.write(text)\<close>.\<close>

definition write_text :: "string \<Rightarrow> string \<Rightarrow> unit io" where
  "write_text name text = (\<lambda>w.
     (Inr (), log_event (WriteText name text) (w\<lparr>files := (files w)(name \<mapsto> text)\<rparr>)))"

section \<open>The program\<close>

subsection \<open>The training set and the regularisation scale\<close>

text \<open>
  Lines 63 and 118 are the same expression,
  \<open>ase.io.read(state.xyz_filename, ":") + state.get_previous_data()\<close>: the file is
  read first, the method is called second, the two lists are concatenated.
\<close>

definition read_frames_train :: "env \<Rightarrow> hybrid_md \<Rightarrow> atoms list io" where
  "read_frames_train env state =
     io_bind (ase_io_read env (xyz_filename state)) (\<lambda>from_file.
     io_bind (call_get_previous_data state) (\<lambda>previous.
     io_return (from_file @ previous)))"

text \<open>
  \<open>x / len(at)\<close>: a Python \<open>float\<close> divided by zero raises
  \<open>ZeroDivisionError\<close>; a \<open>numpy.float64\<close> divided by zero is an infinity or
  \<open>nan\<close> (with a warning), and the run goes on.
\<close>

definition truediv :: "env \<Rightarrow> number \<Rightarrow> nat \<Rightarrow> error + float64" where
  "truediv env x n =
     (case x of
        PyFloat d \<Rightarrow> if n = 0 then Inl ZeroDivisionError else Inr (float_truediv env d n)
      | NumpyFloat64 d \<Rightarrow> Inr (float_truediv env d n))"

text \<open>
  The comprehension \<open>[at.info["QM_energy"] / len(at) for at in frames_train]\<close>: a
  frame without the key raises \<open>KeyError\<close>, a division may raise as above, and the
  first frame that raises ends the comprehension.
\<close>

fun per_atom_energies :: "env \<Rightarrow> atoms list \<Rightarrow> error + float64 list" where
  "per_atom_energies env [] = Inr []"
| "per_atom_energies env (frame # frames) =
     (case map_of (info frame) ''QM_energy'' of
        None \<Rightarrow> Inl (KeyError ''QM_energy'')
      | Some energy \<Rightarrow>
          (case truediv env energy (natoms frame) of
             Inl e \<Rightarrow> Inl e
           | Inr q \<Rightarrow>
               (case per_atom_energies env frames of
                  Inl e \<Rightarrow> Inl e
                | Inr qs \<Rightarrow> Inr (q # qs))))"

text \<open>Lines 64 and 122: \<open>np.std([...]) / 4\<close>, a \<open>numpy.float64\<close> divided by 4.\<close>

definition compute_delta :: "env \<Rightarrow> atoms list \<Rightarrow> error + float64" where
  "compute_delta env frames_train =
     (case per_atom_energies env frames_train of
        Inl e \<Rightarrow> Inl e
      | Inr es \<Rightarrow> Inr (float_truediv env (np_std env es) 4))"

subsection \<open>The descriptor strings\<close>

text \<open>The two-body descriptor, the same f-string at lines 67-71 and 123-127.\<close>

definition desc_str_2b :: "string \<Rightarrow> string" where
  "desc_str_2b delta =
     ''distance_Nb order=2 n_sparse=20 cutoff=4.5 cutoff_transition_width=1.0 '' @
     ''compact_clusters covariance_type=ard_se theta_uniform=1.0 sparse_method=uniform '' @
     ''f0=0.0 add_species=T delta='' @ delta"

text \<open>
  Lines 75-81: \<open>soap_common\<close> is a plain string, not an f-string, so its doubled
  braces stay doubled.
\<close>

definition soap_common :: string where
  "soap_common =
     '' n_species=2 species_Z={{6 14}} rcut_hard=4.5 rcut_soft=3.5 alpha_max={{10 10}} l_max=6 '' @
     ''atom_sigma_r={{0.3 0.3}} atom_sigma_t={{0.3 0.3}} atom_sigma_r_scaling={{0.10 0.10}} '' @
     ''atom_sigma_t_scaling={{0.10 0.10}} amplitude_scaling={{1. 1.}} radial_enhancement=1 '' @
     ''basis=poly3gauss scaling_mode=polynomial central_weight={{1. 1.}} f0=0.0 '' @
     ''covariance_type=dot_product zeta=4 sparse_method=cur_points add_species=F ''"

text \<open>Lines 74 and 82-87, with \<open>soap_n_sparse = 200\<close>.\<close>

definition turbo_descriptor_strs :: "string \<Rightarrow> string" where
  "turbo_descriptor_strs delta =
     desc_str_2b delta @ '' : '' @
     (''soap_turbo central_index=1 n_sparse='' @ ''200'' @ '' delta='' @ delta @ '' '' @
        soap_common @ '' : '' @
      ''soap_turbo central_index=2 n_sparse='' @ ''200'' @ '' delta='' @ delta @ '' '' @
        soap_common @ '' '')"

text \<open>Lines 123-133.\<close>

definition generic_descriptor_strs :: "string \<Rightarrow> string" where
  "generic_descriptor_strs delta =
     desc_str_2b delta @ '' : '' @
     (''soap n_sparse=200 n_max=8 l_max=4 cutoff=4.0 cutoff_transition_width=1.0 '' @
      ''atom_sigma=0.5 add_species=True '' @
      ''delta='' @ delta @ '' covariance_type=dot_product zeta=4 sparse_method=cur_points'')"

text \<open>Lines 143-150: the command line, an f-string in which \<open>{{\<close> prints one brace.\<close>

definition fit_str :: "string \<Rightarrow> string \<Rightarrow> string \<Rightarrow> string" where
  "fit_str gp_name default_sigma descriptor_strs =
     ''gap_fit at_file=train.xyz gp_file='' @ gp_name @ '' '' @
     ''energy_parameter_name=QM_energy force_parameter_name=QM_forces'' @
     '' virial_parameter_name=QM_virial '' @
     ''sparse_jitter=1.0e-8 do_copy_at_file=F sparse_separate_file=F '' @
     ''default_sigma={ '' @ default_sigma @ '' } e0_method=average '' @
     ''gap={ '' @ descriptor_strs @ '' }''"

subsection \<open>\<open>refit_generic\<close>\<close>

text \<open>Lines 113-114.\<close>

definition resolve_default_sigma :: "string option \<Rightarrow> string" where
  "resolve_default_sigma default_sigma =
     (case default_sigma of None \<Rightarrow> ''0.005 0.050 0.1 1.0'' | Some sigma \<Rightarrow> sigma)"

text \<open>Lines 120-133: the descriptors given, or the generic ones with the delta of the frames.\<close>

definition resolve_descriptor_strs :: "env \<Rightarrow> string option \<Rightarrow> atoms list \<Rightarrow> error + string" where
  "resolve_descriptor_strs env descriptor_strs frames_train =
     (case descriptor_strs of
        None \<Rightarrow>
          (case compute_delta env frames_train of
             Inl e \<Rightarrow> Inl e
           | Inr delta \<Rightarrow> Inr (generic_descriptor_strs (str_float env delta)))
      | Some given \<Rightarrow> Inr given)"

text \<open>Lines 136-137: the previous model is moved to a name made from the clock.\<close>

definition save_previous_model :: "env \<Rightarrow> string \<Rightarrow> unit io" where
  "save_previous_model env gp_name =
     io_bind (os_path_isfile gp_name) (\<lambda>present.
       if present
       then io_bind (time env) (\<lambda>t.
              shutil_move gp_name (''save__'' @ str_real env t @ ''__'' @ gp_name))
       else io_return ())"

text \<open>
  \<open>refit_generic\<close> is written in two parts, cut at the call of the external
  process: \<open>prepare_fit\<close> is lines 113-150 and returns the command line,
  \<open>run_fit\<close> is lines 153-161.
\<close>

definition prepare_fit :: "env \<Rightarrow> hybrid_md \<Rightarrow> string option \<Rightarrow> string option \<Rightarrow> string io" where
  "prepare_fit env state descriptor_strs default_sigma =
     (let default_sigma = resolve_default_sigma default_sigma;
          gp_name = ''GAP.xml''
      in io_bind (read_frames_train env state) (\<lambda>frames_train.
         io_bind (io_lift (resolve_descriptor_strs env descriptor_strs frames_train))
           (\<lambda>descriptor_strs.
         io_bind (save_previous_model env gp_name) (\<lambda>_.
         io_bind (ase_io_write env ''train.xyz'' frames_train) (\<lambda>_.
         io_return (fit_str gp_name default_sigma descriptor_strs))))))"

definition run_fit :: "env \<Rightarrow> string \<Rightarrow> py_value io" where
  "run_fit env fit_string =
     (let gp_name = ''GAP.xml''
      in io_bind (subprocess_run env fit_string) (\<lambda>proc.
         io_bind (time env) (\<lambda>t1.
         io_bind (write_text (''stdout_'' @ gp_name @ ''_at_'' @ str_real env t1 @ ''__.txt'')
                    (stdout proc)) (\<lambda>_.
         io_bind (time env) (\<lambda>t2.
         io_bind (write_text (''stderr_'' @ gp_name @ ''_at_'' @ str_real env t2 @ ''__.txt'')
                    (stderr proc)) (\<lambda>_.
         io_return PyNone))))))"

definition refit_generic :: "env \<Rightarrow> hybrid_md \<Rightarrow> string option \<Rightarrow> string option \<Rightarrow> py_value io" where
  "refit_generic env state descriptor_strs default_sigma =
     io_bind (prepare_fit env state descriptor_strs default_sigma) (run_fit env)"

subsection \<open>\<open>refit_turbo_si_c\<close>\<close>

text \<open>Line 90.\<close>

definition turbo_default_sigma :: string where
  "turbo_default_sigma = ''0.005 0.050 0.1 1.0''"

definition refit_turbo_si_c :: "env \<Rightarrow> hybrid_md \<Rightarrow> py_value io" where
  "refit_turbo_si_c env state =
     io_bind (read_frames_train env state) (\<lambda>frames_train.
     io_bind (io_lift (compute_delta env frames_train)) (\<lambda>delta.
       refit_generic env state
         (Some (turbo_descriptor_strs (str_float env delta)))
         (Some turbo_default_sigma)))"

subsection \<open>\<open>refit\<close>\<close>

text \<open>
  Lines 38-39: the module path is all segments of the name but the last, the
  function's name is the last segment.
\<close>

definition module_name_of :: "string \<Rightarrow> string" where
  "module_name_of refit_function_import =
     str_join ''.'' (butlast (str_split (CHR ''.'') refit_function_import))"

definition function_name_of :: "string \<Rightarrow> string" where
  "function_name_of refit_function_import = last (str_split (CHR ''.'') refit_function_import)"

text \<open>
  Lines 32-57. Only \<open>ModuleNotFoundError\<close> is caught at the import; any other
  exception of the import leaves \<open>refit\<close> as it is. \<open>assert callable(...)\<close> raises
  \<open>AssertionError\<close> (the interpreter is taken to run with assertions enabled).
\<close>

definition refit :: "env \<Rightarrow> hybrid_md \<Rightarrow> py_value io" where
  "refit env state =
     (case refit_function_name state of
        None \<Rightarrow> refit_generic env state None None
      | Some refit_function_import \<Rightarrow>
          (let module_name = module_name_of refit_function_import;
               function_name = function_name_of refit_function_import
           in (\<lambda>w.
             case import_module env module_name w of
               (Inl (ModuleNotFoundError _), w') \<Rightarrow>
                 (Inl (RuntimeError (''Refit function's module not found: '' @ module_name)), w')
             | (Inl e, w') \<Rightarrow> (Inl e, w')
             | (Inr py_mod, w') \<Rightarrow>
                 (case py_mod function_name of
                    Some (Function refit_function) \<Rightarrow> refit_function state w'
                  | Some NotCallable \<Rightarrow> (Inl AssertionError, w')
                  | None \<Rightarrow>
                      (Inl (RuntimeError (''Refit function ('' @ function_name @
                         '') not found in module '' @ module_name)), w')))))"

section \<open>A small world to run the program in\<close>

definition frame_a :: atoms where
  "frame_a = \<lparr>natoms = 2, info = [(''QM_energy'', NumpyFloat64 (Finite (- 2)))]\<rparr>"

definition frame_b :: atoms where
  "frame_b = \<lparr>natoms = 2, info = [(''QM_energy'', NumpyFloat64 (Finite (- 4)))]\<rparr>"

text \<open>
  The arithmetic of the small world is a table of the values the machine gives on
  the numbers that occur in it: \<open>-2.0 / 2\<close> is \<open>-1.0\<close>, \<open>-4.0 / 2\<close> is \<open>-2.0\<close>,
  \<open>numpy.std([-1.0, -2.0])\<close> is \<open>0.5\<close>, and \<open>0.5 / 4\<close> is \<open>0.125\<close>, all of them
  exact in binary. Elsewhere the table is not filled (\<open>nan\<close>).
\<close>

definition demo_float_truediv :: "float64 \<Rightarrow> nat \<Rightarrow> float64" where
  "demo_float_truediv x n =
     (if x = Finite (- 2) \<and> n = 2 then Finite (- 1)
      else if x = Finite (- 4) \<and> n = 2 then Finite (- 2)
      else if x = Finite (1 / 2) \<and> n = 4 then Finite (1 / 8)
      else NaN)"

definition demo_np_std :: "float64 list \<Rightarrow> float64" where
  "demo_np_std xs = (if xs = [Finite (- 1), Finite (- 2)] then Finite (1 / 2) else NaN)"

definition demo_module :: py_module where
  "demo_module =
     [''my_refit'' \<mapsto> Function (\<lambda>state. io_return (PyInt 7)),
      ''VERSION'' \<mapsto> NotCallable]"

definition demo_shell :: "string \<Rightarrow> fs \<Rightarrow> completed_process \<times> fs" where
  "demo_shell cmd fs =
     (\<lparr>returncode = 0, stdout = ''fit done'', stderr = []\<rparr>, fs(''GAP.xml'' \<mapsto> ''new model''))"

definition failing_shell :: "string \<Rightarrow> fs \<Rightarrow> completed_process \<times> fs" where
  "failing_shell cmd fs = (\<lparr>returncode = 1, stdout = ''reading'', stderr = ''no memory''\<rparr>, fs)"

definition demo_str_real :: "real \<Rightarrow> string" where
  "demo_str_real r =
     (if r = 1 / 8 then ''0.125''
      else if r = 0 then ''0.0''
      else if r = 100 then ''100.0''
      else if r = 101 then ''101.0''
      else if r = 102 then ''102.0''
      else ''?'')"

definition demo_env :: env where
  "demo_env =
     \<lparr>find_module =
        (\<lambda>name. if name = ''my_pkg.fits'' then Inr demo_module
                else Inl (ModuleNotFoundError name)),
      parse_xyz =
        (\<lambda>text. if text = ''A'' then Inr [frame_a]
                else if text = ''B'' then Inr [frame_b]
                else Inl (OtherError ''not a structure file'')),
      format_xyz =
        (\<lambda>frames. concat (map (\<lambda>frame. if frame = frame_a then ''A''
                                         else if frame = frame_b then ''B'' else ''?'') frames)),
      shell = demo_shell,
      clock = (\<lambda>n. 100 + real n),
      str_real = demo_str_real,
      float_truediv = demo_float_truediv,
      np_std = demo_np_std\<rparr>"

definition demo_state :: "string option \<Rightarrow> hybrid_md" where
  "demo_state name =
     \<lparr>xyz_filename = ''new.xyz'',
      refit_function_name = name,
      get_previous_data = (\<lambda>fs. (Inr [frame_b], fs))\<rparr>"

definition demo_world :: world where
  "demo_world =
     \<lparr>files = [''new.xyz'' \<mapsto> ''A'', ''GAP.xml'' \<mapsto> ''old model''],
      ticks = 0,
      trace = []\<rparr>"

text \<open>The same with a shell whose process fails, and with a clock that stands still.\<close>

definition failing_env :: env where
  "failing_env = demo_env\<lparr>shell := failing_shell\<rparr>"

definition stuck_clock_env :: env where
  "stuck_clock_env = demo_env\<lparr>clock := (\<lambda>n. 100)\<rparr>"

text \<open>
  A state whose method returns one more structure from its second call on (it keeps
  its count in a file).
\<close>

definition growing_state :: hybrid_md where
  "growing_state =
     \<lparr>xyz_filename = ''new.xyz'',
      refit_function_name = Some ''hybrid_md.refit.refit_turbo_si_c'',
      get_previous_data =
        (\<lambda>fs. (Inr (if fs ''calls'' = None then [frame_b] else [frame_b, frame_a]),
                fs(''calls'' \<mapsto> ''1'')))\<rparr>"

section \<open>Observations\<close>

text \<open>The commands that were started, in order, as the trace records them.\<close>

fun commands_run :: "event list \<Rightarrow> string list" where
  "commands_run [] = []"
| "commands_run (Run cmd # evs) = cmd # commands_run evs"
| "commands_run (_ # evs) = commands_run evs"

text \<open>The command line as a list of words, joined by single spaces.\<close>

definition command_words :: "string \<Rightarrow> string \<Rightarrow> string list" where
  "command_words sigma descriptors =
     [''gap_fit'',
      ''at_file=train.xyz'',
      ''gp_file=GAP.xml'',
      ''energy_parameter_name=QM_energy'',
      ''force_parameter_name=QM_forces'',
      ''virial_parameter_name=QM_virial'',
      ''sparse_jitter=1.0e-8'',
      ''do_copy_at_file=F'',
      ''sparse_separate_file=F'',
      ''default_sigma={'', sigma, ''}'',
      ''e0_method=average'',
      ''gap={'', descriptors, ''}'']"

section \<open>Running a sequence of steps\<close>

lemma read_frames_train_exec:
  assumes "ase_io_read env (xyz_filename state) w = (Inr from_file, wa)"
      and "call_get_previous_data state wa = (Inr previous, wb)"
    shows "read_frames_train env state w = (Inr (from_file @ previous), wb)"
  using assms by (simp add: read_frames_train_def io_bind_def io_return_def)

lemma ase_io_read_world:
  "ase_io_read env filename w = (r, wa) \<Longrightarrow> wa = log_event (ReadStructures filename) w"
  by (auto simp: ase_io_read_def)

lemma call_get_previous_data_world:
  "call_get_previous_data state wa = (r, wb) \<Longrightarrow>
     ticks wb = ticks wa \<and> trace wb = trace wa @ [GetPreviousData]"
  by (auto simp: call_get_previous_data_def log_event_def split: prod.splits)

lemma reads_world:
  assumes "ase_io_read env filename w = (r, wa)"
      and "call_get_previous_data state wa = (r', wb)"
    shows "ticks wb = ticks w"
      and "trace wb = trace w @ [ReadStructures filename, GetPreviousData]"
  using ase_io_read_world [OF assms(1)] call_get_previous_data_world [OF assms(2)]
  by (simp_all add: log_event_def)

lemma save_previous_model_ok: "fst (save_previous_model env gp_name w) = Inr ()"
  by (simp add: save_previous_model_def io_bind_def os_path_isfile_def time_def
      shutil_move_def io_return_def log_event_def split: option.splits)

lemma save_previous_model_absent:
  "files w gp_name = None \<Longrightarrow>
     save_previous_model env gp_name w = (Inr (), log_event (IsFile gp_name) w)"
  by (simp add: save_previous_model_def io_bind_def os_path_isfile_def io_return_def)

lemma save_previous_model_present:
  "files w gp_name = Some model \<Longrightarrow>
     save_previous_model env gp_name w =
       (Inr (),
        w\<lparr>files := ((files w)(gp_name := None))
                      (''save__'' @ str_real env (clock env (ticks w)) @ ''__'' @ gp_name \<mapsto> model),
          ticks := Suc (ticks w),
          trace := trace w @ [IsFile gp_name,
             Move gp_name (''save__'' @ str_real env (clock env (ticks w)) @ ''__'' @ gp_name)]\<rparr>)"
  by (simp add: save_previous_model_def io_bind_def os_path_isfile_def time_def
      shutil_move_def log_event_def)

lemma prepare_fit_exec:
  assumes "ase_io_read env (xyz_filename state) w = (Inr from_file, wa)"
      and "call_get_previous_data state wa = (Inr previous, wb)"
      and "resolve_descriptor_strs env descriptor_strs (from_file @ previous) = Inr ds"
    shows "prepare_fit env state descriptor_strs default_sigma w =
             (Inr (fit_str ''GAP.xml'' (resolve_default_sigma default_sigma) ds),
              snd (ase_io_write env ''train.xyz'' (from_file @ previous)
                     (snd (save_previous_model env ''GAP.xml'' wb))))"
proof -
  have r: "read_frames_train env state w = (Inr (from_file @ previous), wb)"
    using assms(1,2) by (rule read_frames_train_exec)
  obtain ws where s: "save_previous_model env ''GAP.xml'' wb = (Inr (), ws)"
    using save_previous_model_ok [of env "''GAP.xml''" wb]
    by (cases "save_previous_model env ''GAP.xml'' wb") simp
  show ?thesis
    unfolding prepare_fit_def Let_def
    by (simp add: io_bind_def r io_lift_def assms(3) s ase_io_write_def io_return_def)
qed

lemma prepare_fit_absent:
  assumes "ase_io_read env (xyz_filename state) w = (Inr from_file, wa)"
      and "call_get_previous_data state wa = (Inr previous, wb)"
      and "resolve_descriptor_strs env descriptor_strs (from_file @ previous) = Inr ds"
      and "files wb ''GAP.xml'' = None"
    shows "snd (prepare_fit env state descriptor_strs default_sigma w) =
             wb\<lparr>files := (files wb)(''train.xyz'' \<mapsto> format_xyz env (from_file @ previous)),
                trace := trace wb @ [IsFile ''GAP.xml'',
                  WriteStructures ''train.xyz'' (from_file @ previous)]\<rparr>"
  by (simp add: prepare_fit_exec [OF assms(1-3)] save_previous_model_absent [OF assms(4)]
      ase_io_write_def log_event_def)

lemma prepare_fit_present:
  assumes "ase_io_read env (xyz_filename state) w = (Inr from_file, wa)"
      and "call_get_previous_data state wa = (Inr previous, wb)"
      and "resolve_descriptor_strs env descriptor_strs (from_file @ previous) = Inr ds"
      and "files wb ''GAP.xml'' = Some model"
    shows "snd (prepare_fit env state descriptor_strs default_sigma w) =
             wb\<lparr>files := (((files wb)(''GAP.xml'' := None))
                   (''save__'' @ str_real env (clock env (ticks wb)) @ ''__GAP.xml'' \<mapsto> model))
                   (''train.xyz'' \<mapsto> format_xyz env (from_file @ previous)),
                ticks := Suc (ticks wb),
                trace := trace wb @ [IsFile ''GAP.xml'',
                  Move ''GAP.xml'' (''save__'' @ str_real env (clock env (ticks wb)) @ ''__GAP.xml''),
                  WriteStructures ''train.xyz'' (from_file @ previous)]\<rparr>"
  by (simp add: prepare_fit_exec [OF assms(1-3)] save_previous_model_present [OF assms(4)]
      ase_io_write_def log_event_def)

lemma refit_generic_exec:
  assumes "ase_io_read env (xyz_filename state) w = (Inr from_file, wa)"
      and "call_get_previous_data state wa = (Inr previous, wb)"
      and "resolve_descriptor_strs env descriptor_strs (from_file @ previous) = Inr ds"
    shows "refit_generic env state descriptor_strs default_sigma w =
             run_fit env (fit_str ''GAP.xml'' (resolve_default_sigma default_sigma) ds)
               (snd (prepare_fit env state descriptor_strs default_sigma w))"
  by (simp add: refit_generic_def io_bind_def prepare_fit_exec [OF assms])

lemma run_fit_failure:
  assumes "shell env cmd (files w) = (proc, fs')" and "returncode proc \<noteq> 0"
  shows "run_fit env cmd w =
           (Inl (CalledProcessError (returncode proc) cmd (stdout proc) (stderr proc)),
            log_event (Run cmd) (w\<lparr>files := fs'\<rparr>))"
  using assms by (simp add: run_fit_def Let_def io_bind_def subprocess_run_def)

lemma run_fit_success:
  assumes "shell env cmd (files w) = (proc, fs')" and "returncode proc = 0"
  shows "run_fit env cmd w =
           (Inr PyNone,
            w\<lparr>files := (fs'(''stdout_GAP.xml_at_'' @ str_real env (clock env (ticks w)) @ ''__.txt''
                              \<mapsto> stdout proc))
                          (''stderr_GAP.xml_at_'' @ str_real env (clock env (Suc (ticks w))) @ ''__.txt''
                              \<mapsto> stderr proc),
              ticks := Suc (Suc (ticks w)),
              trace := trace w @
                [Run cmd,
                 WriteText (''stdout_GAP.xml_at_'' @ str_real env (clock env (ticks w)) @ ''__.txt'')
                   (stdout proc),
                 WriteText (''stderr_GAP.xml_at_'' @ str_real env (clock env (Suc (ticks w))) @ ''__.txt'')
                   (stderr proc)]\<rparr>)"
  using assms
  by (simp add: run_fit_def Let_def io_bind_def subprocess_run_def time_def write_text_def
      io_return_def log_event_def)

lemma commands_run_append: "commands_run (xs @ ys) = commands_run xs @ commands_run ys"
  by (induction xs rule: commands_run.induct) simp_all

lemma run_fit_commands:
  "commands_run (trace (snd (run_fit env cmd w))) = commands_run (trace w) @ [cmd]"
proof (cases "shell env cmd (files w)")
  case (Pair proc fs')
  show ?thesis
  proof (cases "returncode proc = 0")
    case True
    show ?thesis
      by (simp add: run_fit_success [OF Pair True] commands_run_append)
  next
    case False
    show ?thesis
      by (simp add: run_fit_failure [OF Pair False] commands_run_append log_event_def)
  qed
qed

lemma fit_str_words:
  "fit_str ''GAP.xml'' sigma descriptors = str_join '' '' (command_words sigma descriptors)"
  by (simp add: fit_str_def command_words_def)

section \<open>The resolver\<close>

text \<open>
  C2. When \<open>state.refit_function_name\<close> is a dotted name whose module path is
  imported and whose last segment names a callable of that module, \<open>refit\<close> calls
  that function once, with the state as its only argument, in the world the import
  left, and the result of \<open>refit\<close> is the result of the function, value or
  exception, with nothing added; the import has changed no file and read no clock.
\<close>

theorem refit_calls_resolved_function:
  assumes "refit_function_name state = Some name"
      and "import_module env (module_name_of name) w = (Inr py_mod, w')"
      and "py_mod (function_name_of name) = Some (Function refit_function)"
    shows "refit env state w = refit_function state w'
           \<and> w' = log_event (ImportModule (module_name_of name)) w"
  using assms by (auto simp: refit_def Let_def import_module_def)

theorem refit_calls_resolved_function_witness:
  "refit demo_env (demo_state (Some ''my_pkg.fits.my_refit'')) demo_world =
     (Inr (PyInt 7), log_event (ImportModule ''my_pkg.fits'') demo_world)"
proof -
  have n: "refit_function_name (demo_state (Some ''my_pkg.fits.my_refit''))
             = Some ''my_pkg.fits.my_refit''"
    by (simp add: demo_state_def)
  have m: "module_name_of ''my_pkg.fits.my_refit'' = ''my_pkg.fits''"
    by (simp add: module_name_of_def)
  have f: "function_name_of ''my_pkg.fits.my_refit'' = ''my_refit''"
    by (simp add: function_name_of_def)
  have i: "import_module demo_env (module_name_of ''my_pkg.fits.my_refit'') demo_world =
             (Inr demo_module, log_event (ImportModule ''my_pkg.fits'') demo_world)"
    by (simp add: m import_module_def demo_env_def)
  have a: "demo_module (function_name_of ''my_pkg.fits.my_refit'') =
             Some (Function (\<lambda>state. io_return (PyInt 7)))"
    by (simp add: f demo_module_def)
  show ?thesis
    using refit_calls_resolved_function [OF n i a] by (simp add: io_return_def)
qed

text \<open>
  C3, as the code has it. When \<open>state.refit_function_name\<close> is \<open>None\<close>,
  \<open>refit\<close> is \<open>refit_generic(state, None, None)\<close>. The test of the code is
  \<open>is None\<close>: the empty string is a name like any other.
\<close>

theorem refit_without_name:
  assumes "refit_function_name state = None"
  shows "refit env state w = refit_generic env state None None w"
  using assms by (simp add: refit_def)

theorem refit_without_name_witness:
  "refit demo_env (demo_state None) demo_world =
     refit_generic demo_env (demo_state None) None None demo_world"
proof -
  have "refit_function_name (demo_state None) = None"
    by (simp add: demo_state_def)
  then show ?thesis by (rule refit_without_name)
qed

text \<open>
  C3 as the specification states it fails for the empty string: its module path and
  its function name are both empty, the import of the empty module path raises
  \<open>ValueError\<close>, and the only effect is the attempt to import; the generic
  strategy has not been started.
\<close>

theorem refit_empty_name_counterexample:
  "refit demo_env (demo_state (Some [])) demo_world =
     (Inl (ValueError ''Empty module name''), demo_world\<lparr>trace := [ImportModule []]\<rparr>)
   \<and> fst (refit_generic demo_env (demo_state (Some [])) None None demo_world) = Inr PyNone"
proof -
  have r: "ase_io_read demo_env (xyz_filename (demo_state (Some []))) demo_world =
             (Inr [frame_a], log_event (ReadStructures ''new.xyz'') demo_world)"
    by (simp add: ase_io_read_def demo_env_def demo_state_def demo_world_def)
  have g: "call_get_previous_data (demo_state (Some []))
             (log_event (ReadStructures ''new.xyz'') demo_world) =
             (Inr [frame_b],
              log_event GetPreviousData (log_event (ReadStructures ''new.xyz'') demo_world))"
    by (simp add: call_get_previous_data_def demo_state_def log_event_def)
  have d: "resolve_descriptor_strs demo_env None ([frame_a] @ [frame_b]) =
             Inr (generic_descriptor_strs ''0.125'')"
    by (simp add: resolve_descriptor_strs_def compute_delta_def truediv_def frame_a_def
        frame_b_def str_float_def demo_env_def demo_float_truediv_def demo_np_std_def
        demo_str_real_def)
  have "fst (run_fit demo_env cmd w1) = Inr PyNone" for cmd w1
  proof -
    have "shell demo_env cmd (files w1) =
            (\<lparr>returncode = 0, stdout = ''fit done'', stderr = []\<rparr>,
             (files w1)(''GAP.xml'' \<mapsto> ''new model''))"
      by (simp add: demo_env_def demo_shell_def)
    then show ?thesis
      by (simp add: run_fit_success)
  qed
  then have "fst (refit_generic demo_env (demo_state (Some [])) None None demo_world) = Inr PyNone"
    by (simp add: refit_generic_exec [OF r g d])
  moreover have "refit demo_env (demo_state (Some [])) demo_world =
     (Inl (ValueError ''Empty module name''), demo_world\<lparr>trace := [ImportModule []]\<rparr>)"
    by (simp add: refit_def Let_def demo_state_def module_name_of_def function_name_of_def
        import_module_def log_event_def demo_world_def)
  ultimately show ?thesis by simp
qed

text \<open>
  C1, as the code has it. For a name whose module path is not found
  (\<open>ModuleNotFoundError\<close> at the import) \<open>refit\<close> raises \<open>RuntimeError\<close> with a
  message that names the module path; for a module without the named attribute it
  raises \<open>RuntimeError\<close> with a message that names the function and the module
  path; for an attribute that is not callable the assertion fails, which is
  \<open>AssertionError\<close>. In all three cases the only effect is the import: no file is
  changed, no clock is read, and the trace has one more event, the import.
\<close>

theorem refit_resolution_failures:
  assumes "refit_function_name state = Some name"
      and "import_module env (module_name_of name) w = (r, w')"
    shows "(\<forall>missing. r = Inl (ModuleNotFoundError missing) \<longrightarrow>
              refit env state w =
                (Inl (RuntimeError (''Refit function's module not found: '' @ module_name_of name)),
                 w'))
         \<and> (\<forall>py_mod. r = Inr py_mod \<and> py_mod (function_name_of name) = None \<longrightarrow>
              refit env state w =
                (Inl (RuntimeError (''Refit function ('' @ function_name_of name @
                        '') not found in module '' @ module_name_of name)),
                 w'))
         \<and> (\<forall>py_mod. r = Inr py_mod \<and> py_mod (function_name_of name) = Some NotCallable \<longrightarrow>
              refit env state w = (Inl AssertionError, w'))
         \<and> files w' = files w \<and> ticks w' = ticks w
         \<and> trace w' = trace w @ [ImportModule (module_name_of name)]"
proof -
  have w': "w' = log_event (ImportModule (module_name_of name)) w"
    using assms(2) by (auto simp: import_module_def)
  have "files w' = files w \<and> ticks w' = ticks w
        \<and> trace w' = trace w @ [ImportModule (module_name_of name)]"
    by (simp add: w' log_event_def)
  moreover have "refit env state w =
      (Inl (RuntimeError (''Refit function's module not found: '' @ module_name_of name)), w')"
    if "r = Inl (ModuleNotFoundError missing)" for missing
    using assms that by (simp add: refit_def Let_def)
  moreover have "refit env state w =
      (Inl (RuntimeError (''Refit function ('' @ function_name_of name @
              '') not found in module '' @ module_name_of name)), w')"
    if "r = Inr py_mod \<and> py_mod (function_name_of name) = None" for py_mod
    using assms that by (simp add: refit_def Let_def)
  moreover have "refit env state w = (Inl AssertionError, w')"
    if "r = Inr py_mod \<and> py_mod (function_name_of name) = Some NotCallable" for py_mod
    using assms that by (simp add: refit_def Let_def)
  ultimately show ?thesis by blast
qed

theorem refit_resolution_failures_witness:
  "refit demo_env (demo_state (Some ''no_pkg.fits.my_refit'')) demo_world =
     (Inl (RuntimeError ''Refit function's module not found: no_pkg.fits''),
      demo_world\<lparr>trace := [ImportModule ''no_pkg.fits'']\<rparr>)
   \<and> refit demo_env (demo_state (Some ''my_pkg.fits.other'')) demo_world =
     (Inl (RuntimeError ''Refit function (other) not found in module my_pkg.fits''),
      demo_world\<lparr>trace := [ImportModule ''my_pkg.fits'']\<rparr>)
   \<and> refit demo_env (demo_state (Some ''my_pkg.fits.VERSION'')) demo_world =
     (Inl AssertionError, demo_world\<lparr>trace := [ImportModule ''my_pkg.fits'']\<rparr>)"
proof -
  have n: "refit_function_name (demo_state (Some name)) = Some name" for name
    by (simp add: demo_state_def)
  have m: "module_name_of ''no_pkg.fits.my_refit'' = ''no_pkg.fits''"
          "module_name_of ''my_pkg.fits.other'' = ''my_pkg.fits''"
          "module_name_of ''my_pkg.fits.VERSION'' = ''my_pkg.fits''"
          "function_name_of ''my_pkg.fits.other'' = ''other''"
          "function_name_of ''my_pkg.fits.VERSION'' = ''VERSION''"
    by (simp_all add: module_name_of_def function_name_of_def)
  have t: "log_event ev demo_world = demo_world\<lparr>trace := [ev]\<rparr>" for ev
    by (simp add: log_event_def demo_world_def)
  have i1: "import_module demo_env (module_name_of ''no_pkg.fits.my_refit'') demo_world =
              (Inl (ModuleNotFoundError ''no_pkg.fits''),
               demo_world\<lparr>trace := [ImportModule ''no_pkg.fits'']\<rparr>)"
    by (simp add: m import_module_def demo_env_def t)
  have i2: "import_module demo_env (module_name_of ''my_pkg.fits.other'') demo_world =
              (Inr demo_module, demo_world\<lparr>trace := [ImportModule ''my_pkg.fits'']\<rparr>)"
    by (simp add: m import_module_def demo_env_def t)
  have i3: "import_module demo_env (module_name_of ''my_pkg.fits.VERSION'') demo_world =
              (Inr demo_module, demo_world\<lparr>trace := [ImportModule ''my_pkg.fits'']\<rparr>)"
    by (simp add: m import_module_def demo_env_def t)
  have a2: "demo_module (function_name_of ''my_pkg.fits.other'') = None"
    by (simp add: m demo_module_def)
  have a3: "demo_module (function_name_of ''my_pkg.fits.VERSION'') = Some NotCallable"
    by (simp add: m demo_module_def)
  show ?thesis
    using refit_resolution_failures [OF n i1] refit_resolution_failures [OF n i2]
      refit_resolution_failures [OF n i3] a2 a3
    by (simp add: m)
qed

text \<open>
  C1 as the specification states it, one error type for the three failures, fails:
  an attribute that is not callable ends in \<open>AssertionError\<close>, a missing attribute
  in \<open>RuntimeError\<close>; and a module path that cannot be imported because it is empty
  (the dotted name \<open>.my_refit\<close>) ends in the \<open>ValueError\<close> of the import itself.
\<close>

theorem refit_error_types_counterexample:
  "fst (refit demo_env (demo_state (Some ''my_pkg.fits.VERSION'')) demo_world) =
     Inl AssertionError
   \<and> fst (refit demo_env (demo_state (Some ''my_pkg.fits.other'')) demo_world) =
     Inl (RuntimeError ''Refit function (other) not found in module my_pkg.fits'')
   \<and> fst (refit demo_env (demo_state (Some ''.my_refit'')) demo_world) =
     Inl (ValueError ''Empty module name'')
   \<and> exception_class AssertionError \<noteq> exception_class (RuntimeError [])
   \<and> exception_class (ValueError []) \<noteq> exception_class (RuntimeError [])"
  by (simp add: refit_def Let_def demo_state_def module_name_of_def function_name_of_def
      import_module_def demo_env_def demo_module_def)

section \<open>The default sigma of the two strategies\<close>

text \<open>
  C9. The specialised strategy passes the string of line 90 as \<open>default_sigma\<close>.
  The comment above that line announces a lower kernel regularisation, yet the string
  is, character for character, the one \<open>refit_generic\<close> substitutes at line 114
  when it is given none: with it the generic invoker uses the same sigma as without.
\<close>

theorem turbo_sigma_is_generic_default:
  "resolve_default_sigma (Some turbo_default_sigma) = resolve_default_sigma None
   \<and> turbo_default_sigma = ''0.005 0.050 0.1 1.0''"
  by (simp add: resolve_default_sigma_def turbo_default_sigma_def)

section \<open>The specialised strategy hands over to the generic invoker\<close>

lemma refit_turbo_si_c_exec:
  assumes "read_frames_train env state w0 = (Inr frames0, w)"
      and "compute_delta env frames0 = Inr delta"
    shows "refit_turbo_si_c env state w0 =
             refit_generic env state (Some (turbo_descriptor_strs (str_float env delta)))
               (Some turbo_default_sigma) w"
  using assms by (simp add: refit_turbo_si_c_def io_bind_def io_lift_def)

lemma demo_reads:
  "ase_io_read demo_env (xyz_filename (demo_state name)) demo_world =
     (Inr [frame_a], demo_world\<lparr>trace := [ReadStructures ''new.xyz'']\<rparr>)"
  "call_get_previous_data (demo_state name) (demo_world\<lparr>trace := [ReadStructures ''new.xyz'']\<rparr>) =
     (Inr [frame_b], demo_world\<lparr>trace := [ReadStructures ''new.xyz'', GetPreviousData]\<rparr>)"
  by (simp_all add: ase_io_read_def call_get_previous_data_def demo_env_def demo_state_def
      demo_world_def log_event_def)

lemma demo_delta: "compute_delta demo_env ([frame_a] @ [frame_b]) = Inr (Finite (1 / 8))"
  by (simp add: compute_delta_def truediv_def frame_a_def frame_b_def demo_env_def
      demo_float_truediv_def demo_np_std_def)

section \<open>The generic invoker\<close>

lemma prepare_fit_train_file:
  assumes "ase_io_read env (xyz_filename state) w = (Inr from_file, wa)"
      and "call_get_previous_data state wa = (Inr previous, wb)"
      and "resolve_descriptor_strs env descriptor_strs (from_file @ previous) = Inr ds"
    shows "files (snd (prepare_fit env state descriptor_strs default_sigma w)) ''train.xyz'' =
             Some (format_xyz env (from_file @ previous))
           \<and> last (trace (snd (prepare_fit env state descriptor_strs default_sigma w))) =
               WriteStructures ''train.xyz'' (from_file @ previous)"
  by (simp add: prepare_fit_exec [OF assms] ase_io_write_def log_event_def)

lemma prepare_fit_trace:
  assumes "ase_io_read env (xyz_filename state) w = (Inr from_file, wa)"
      and "call_get_previous_data state wa = (Inr previous, wb)"
      and "resolve_descriptor_strs env descriptor_strs (from_file @ previous) = Inr ds"
    shows "trace (snd (prepare_fit env state descriptor_strs default_sigma w)) =
             trace w @
             [ReadStructures (xyz_filename state), GetPreviousData, IsFile ''GAP.xml''] @
             (case files wb ''GAP.xml'' of
                None \<Rightarrow> []
              | Some model \<Rightarrow>
                  [Move ''GAP.xml'' (''save__'' @ str_real env (clock env (ticks w)) @ ''__GAP.xml'')]) @
             [WriteStructures ''train.xyz'' (from_file @ previous)]"
proof (cases "files wb ''GAP.xml''")
  case None
  show ?thesis
    by (simp add: prepare_fit_absent [OF assms None] reads_world [OF assms(1,2)] None)
next
  case (Some model)
  show ?thesis
    by (simp add: prepare_fit_present [OF assms Some] reads_world [OF assms(1,2)] Some)
qed

lemma resolve_descriptor_strs_given:
  "resolve_descriptor_strs env (Some given) frames = Inr given"
  by (simp add: resolve_descriptor_strs_def)

text \<open>
  C5. Whenever the structure file can be read and the method of the state returns,
  the training set of \<open>refit_generic\<close> is the structures of the file followed by
  the structures of \<open>get_previous_data()\<close>, and it is this list that is written
  to \<open>train.xyz\<close>, whatever that file held before: the write is the last step
  before the command line is assembled, and the external process starts from a
  world in which \<open>train.xyz\<close> holds the serialised list. The specialised strategy
  ends in a call of \<open>refit_generic\<close>, so the same holds of the reads of that call.
\<close>

theorem training_set_written:
  assumes "ase_io_read env (xyz_filename state) w = (Inr from_file, wa)"
      and "call_get_previous_data state wa = (Inr previous, wb)"
      and "resolve_descriptor_strs env descriptor_strs (from_file @ previous) = Inr ds"
    shows "refit_generic env state descriptor_strs default_sigma w =
             run_fit env (fit_str ''GAP.xml'' (resolve_default_sigma default_sigma) ds)
               (snd (prepare_fit env state descriptor_strs default_sigma w))
           \<and> files (snd (prepare_fit env state descriptor_strs default_sigma w)) ''train.xyz'' =
               Some (format_xyz env (from_file @ previous))
           \<and> last (trace (snd (prepare_fit env state descriptor_strs default_sigma w))) =
               WriteStructures ''train.xyz'' (from_file @ previous)
           \<and> (\<forall>w0 frames0 delta.
                 read_frames_train env state w0 = (Inr frames0, w) \<and>
                 compute_delta env frames0 = Inr delta \<longrightarrow>
                 refit_turbo_si_c env state w0 =
                   run_fit env
                     (fit_str ''GAP.xml'' turbo_default_sigma
                        (turbo_descriptor_strs (str_float env delta)))
                     (snd (prepare_fit env state
                             (Some (turbo_descriptor_strs (str_float env delta)))
                             (Some turbo_default_sigma) w))
                 \<and> files (snd (prepare_fit env state
                                 (Some (turbo_descriptor_strs (str_float env delta)))
                                 (Some turbo_default_sigma) w)) ''train.xyz'' =
                     Some (format_xyz env (from_file @ previous)))"
proof -
  have turbo: "refit_turbo_si_c env state w0 =
          run_fit env
            (fit_str ''GAP.xml'' turbo_default_sigma (turbo_descriptor_strs (str_float env delta)))
            (snd (prepare_fit env state (Some (turbo_descriptor_strs (str_float env delta)))
                    (Some turbo_default_sigma) w))
        \<and> files (snd (prepare_fit env state (Some (turbo_descriptor_strs (str_float env delta)))
                    (Some turbo_default_sigma) w)) ''train.xyz'' =
            Some (format_xyz env (from_file @ previous))"
    if "read_frames_train env state w0 = (Inr frames0, w) \<and> compute_delta env frames0 = Inr delta"
    for w0 frames0 delta
  proof -
    have c: "refit_turbo_si_c env state w0 =
               refit_generic env state (Some (turbo_descriptor_strs (str_float env delta)))
                 (Some turbo_default_sigma) w"
      using that by (simp add: refit_turbo_si_c_exec)
    show ?thesis
      using refit_generic_exec [OF assms(1,2) resolve_descriptor_strs_given]
        prepare_fit_train_file [OF assms(1,2) resolve_descriptor_strs_given]
      by (simp add: c resolve_default_sigma_def)
  qed
  show ?thesis
    using refit_generic_exec [OF assms] prepare_fit_train_file [OF assms] turbo
    by blast
qed

lemma demo_descriptors:
  "resolve_descriptor_strs demo_env None ([frame_a] @ [frame_b]) =
     Inr (generic_descriptor_strs ''0.125'')"
proof -
  have "str_float demo_env (Finite (1 / 8)) = ''0.125''"
    by (simp add: str_float_def demo_env_def demo_str_real_def)
  then show ?thesis
    by (simp add: resolve_descriptor_strs_def demo_delta [simplified])
qed

text \<open>
  In the small world, \<open>train.xyz\<close> ends as \<open>AB\<close>: the structure of the file, then
  the structure of the earlier data.
\<close>

theorem training_set_written_witness:
  "files (snd (prepare_fit demo_env (demo_state None) None None demo_world)) ''train.xyz'' =
     Some ''AB''
   \<and> last (trace (snd (prepare_fit demo_env (demo_state None) None None demo_world))) =
       WriteStructures ''train.xyz'' [frame_a, frame_b]
   \<and> refit_generic demo_env (demo_state None) None None demo_world =
       run_fit demo_env
         (fit_str ''GAP.xml'' ''0.005 0.050 0.1 1.0'' (generic_descriptor_strs ''0.125''))
         (snd (prepare_fit demo_env (demo_state None) None None demo_world))"
proof -
  have f: "format_xyz demo_env [frame_a, frame_b] = ''AB''"
    by (simp add: demo_env_def frame_a_def frame_b_def)
  show ?thesis
    using training_set_written [OF demo_reads demo_descriptors, of None None]
    by (simp add: f resolve_default_sigma_def)
qed

lemma prepare_fit_commands:
  assumes "ase_io_read env (xyz_filename state) w = (Inr from_file, wa)"
      and "call_get_previous_data state wa = (Inr previous, wb)"
      and "resolve_descriptor_strs env descriptor_strs (from_file @ previous) = Inr ds"
    shows "commands_run (trace (snd (prepare_fit env state descriptor_strs default_sigma w))) =
             commands_run (trace w)"
  by (simp add: prepare_fit_trace [OF assms] commands_run_append split: option.splits)

text \<open>
  C6. Whenever \<open>refit_generic\<close> reaches its external process, the one command it
  starts is the words \<open>gap_fit\<close>, \<open>at_file=train.xyz\<close>, \<open>gp_file=GAP.xml\<close>,
  \<open>energy_parameter_name=QM_energy\<close>, \<open>force_parameter_name=QM_forces\<close>,
  \<open>virial_parameter_name=QM_virial\<close>, \<open>sparse_jitter=1.0e-8\<close>,
  \<open>do_copy_at_file=F\<close>, \<open>sparse_separate_file=F\<close>, the default sigma between
  \<open>default_sigma={\<close> and \<open>}\<close>, \<open>e0_method=average\<close>, and the descriptors between
  \<open>gap={\<close> and \<open>}\<close>, in this order, joined by single spaces; the default sigma is
  \<open>0.005 0.050 0.1 1.0\<close> when the argument is \<open>None\<close>.
\<close>

theorem command_line_assembled:
  assumes "ase_io_read env (xyz_filename state) w = (Inr from_file, wa)"
      and "call_get_previous_data state wa = (Inr previous, wb)"
      and "resolve_descriptor_strs env descriptor_strs (from_file @ previous) = Inr ds"
    shows "refit_generic env state descriptor_strs default_sigma w =
             run_fit env
               (str_join '' '' (command_words
                  (case default_sigma of None \<Rightarrow> ''0.005 0.050 0.1 1.0'' | Some sigma \<Rightarrow> sigma) ds))
               (snd (prepare_fit env state descriptor_strs default_sigma w))
           \<and> commands_run (trace (snd (refit_generic env state descriptor_strs default_sigma w))) =
               commands_run (trace w) @
               [str_join '' '' (command_words
                  (case default_sigma of None \<Rightarrow> ''0.005 0.050 0.1 1.0'' | Some sigma \<Rightarrow> sigma) ds)]"
proof -
  have s: "resolve_default_sigma default_sigma =
             (case default_sigma of None \<Rightarrow> ''0.005 0.050 0.1 1.0'' | Some sigma \<Rightarrow> sigma)"
    by (simp add: resolve_default_sigma_def)
  have e: "refit_generic env state descriptor_strs default_sigma w =
             run_fit env
               (str_join '' '' (command_words
                  (case default_sigma of None \<Rightarrow> ''0.005 0.050 0.1 1.0'' | Some sigma \<Rightarrow> sigma) ds))
               (snd (prepare_fit env state descriptor_strs default_sigma w))"
    using refit_generic_exec [OF assms, of default_sigma] by (simp add: s fit_str_words)
  show ?thesis
    unfolding e by (simp add: run_fit_commands prepare_fit_commands [OF assms])
qed

theorem command_line_assembled_witness:
  "commands_run (trace (snd (refit_generic demo_env (demo_state None) None None demo_world))) =
     [''gap_fit at_file=train.xyz gp_file=GAP.xml energy_parameter_name=QM_energy '' @
      ''force_parameter_name=QM_forces virial_parameter_name=QM_virial sparse_jitter=1.0e-8 '' @
      ''do_copy_at_file=F sparse_separate_file=F default_sigma={ 0.005 0.050 0.1 1.0 } '' @
      ''e0_method=average gap={ distance_Nb order=2 n_sparse=20 cutoff=4.5 '' @
      ''cutoff_transition_width=1.0 compact_clusters covariance_type=ard_se theta_uniform=1.0 '' @
      ''sparse_method=uniform f0=0.0 add_species=T delta=0.125 : soap n_sparse=200 n_max=8 '' @
      ''l_max=4 cutoff=4.0 cutoff_transition_width=1.0 atom_sigma=0.5 add_species=True '' @
      ''delta=0.125 covariance_type=dot_product zeta=4 sparse_method=cur_points }'']"
proof -
  have t: "commands_run (trace demo_world) = []"
    by (simp add: demo_world_def)
  show ?thesis
    using command_line_assembled [OF demo_reads demo_descriptors, of None None, THEN conjunct2]
    by (simp add: t command_words_def generic_descriptor_strs_def desc_str_2b_def)
qed

text \<open>
  C7, as the code has it. When a file is stored under \<open>GAP.xml\<close> at the test of
  line 136, it is moved, before the training file is written and before the fit
  starts, to the name \<open>save__\<close>, the clock reading as printed, \<open>__GAP.xml\<close>. The
  move replaces whatever that name held. When the fit starts no file is stored under
  \<open>GAP.xml\<close>, the backup name holds the previous model, and every file under
  another name than these two and \<open>train.xyz\<close> is as it was.
\<close>

theorem previous_model_moved:
  assumes "ase_io_read env (xyz_filename state) w = (Inr from_file, wa)"
      and "call_get_previous_data state wa = (Inr previous, wb)"
      and "resolve_descriptor_strs env descriptor_strs (from_file @ previous) = Inr ds"
      and "files wb ''GAP.xml'' = Some model"
    shows "refit_generic env state descriptor_strs default_sigma w =
             run_fit env (fit_str ''GAP.xml'' (resolve_default_sigma default_sigma) ds)
               (snd (prepare_fit env state descriptor_strs default_sigma w))
           \<and> files (snd (prepare_fit env state descriptor_strs default_sigma w)) ''GAP.xml'' = None
           \<and> files (snd (prepare_fit env state descriptor_strs default_sigma w))
               (''save__'' @ str_real env (clock env (ticks w)) @ ''__GAP.xml'') = Some model
           \<and> (\<forall>name. name \<noteq> ''GAP.xml'' \<and> name \<noteq> ''train.xyz'' \<and>
                 name \<noteq> ''save__'' @ str_real env (clock env (ticks w)) @ ''__GAP.xml'' \<longrightarrow>
                 files (snd (prepare_fit env state descriptor_strs default_sigma w)) name =
                   files wb name)
           \<and> trace (snd (prepare_fit env state descriptor_strs default_sigma w)) =
               trace w @
               [ReadStructures (xyz_filename state), GetPreviousData, IsFile ''GAP.xml'',
                Move ''GAP.xml'' (''save__'' @ str_real env (clock env (ticks w)) @ ''__GAP.xml''),
                WriteStructures ''train.xyz'' (from_file @ previous)]"
  using refit_generic_exec [OF assms(1-3), of default_sigma]
  by (simp add: prepare_fit_present [OF assms] reads_world [OF assms(1,2)])

theorem previous_model_moved_witness:
  "files (snd (prepare_fit demo_env (demo_state None) None None demo_world)) ''GAP.xml'' = None
   \<and> files (snd (prepare_fit demo_env (demo_state None) None None demo_world))
       ''save__100.0__GAP.xml'' = Some ''old model''
   \<and> files (snd (prepare_fit demo_env (demo_state None) None None demo_world)) ''new.xyz'' =
       Some ''A''
   \<and> trace (snd (prepare_fit demo_env (demo_state None) None None demo_world)) =
       [ReadStructures ''new.xyz'', GetPreviousData, IsFile ''GAP.xml'',
        Move ''GAP.xml'' ''save__100.0__GAP.xml'',
        WriteStructures ''train.xyz'' [frame_a, frame_b]]"
proof -
  have m: "files (demo_world\<lparr>trace := [ReadStructures ''new.xyz'', GetPreviousData]\<rparr>) ''GAP.xml'' =
             Some ''old model''"
    by (simp add: demo_world_def)
  have c: "str_real demo_env (clock demo_env (ticks demo_world)) = ''100.0''"
    by (simp add: demo_env_def demo_world_def demo_str_real_def)
  have n: "''new.xyz'' \<noteq> ''GAP.xml'' \<and> ''new.xyz'' \<noteq> ''train.xyz'' \<and>
           ''new.xyz'' \<noteq> ''save__'' @ str_real demo_env (clock demo_env (ticks demo_world)) @ ''__GAP.xml''"
    by (simp add: c)
  have f: "files demo_world ''new.xyz'' = Some ''A''"
          "trace demo_world = []" "xyz_filename (demo_state None) = ''new.xyz''"
    by (simp_all add: demo_world_def demo_state_def)
  show ?thesis
    using previous_model_moved [where default_sigma = None,
        OF demo_reads [of None] demo_descriptors m] n
    by (simp add: c f)
qed

lemma stuck_clock_run:
  assumes "files w ''new.xyz'' = Some ''A''" and "files w ''GAP.xml'' = Some model"
  shows "files (snd (refit_generic stuck_clock_env (demo_state None) None None w)) =
           (files w)(''save__100.0__GAP.xml'' \<mapsto> model,
                     ''train.xyz'' \<mapsto> ''AB'',
                     ''GAP.xml'' \<mapsto> ''new model'',
                     ''stdout_GAP.xml_at_100.0__.txt'' \<mapsto> ''fit done'',
                     ''stderr_GAP.xml_at_100.0__.txt'' \<mapsto> [])"
proof -
  have r: "ase_io_read stuck_clock_env (xyz_filename (demo_state None)) w =
             (Inr [frame_a], log_event (ReadStructures ''new.xyz'') w)"
    by (simp add: ase_io_read_def stuck_clock_env_def demo_env_def demo_state_def assms(1))
  have g: "call_get_previous_data (demo_state None) (log_event (ReadStructures ''new.xyz'') w) =
             (Inr [frame_b], log_event GetPreviousData (log_event (ReadStructures ''new.xyz'') w))"
    by (simp add: call_get_previous_data_def demo_state_def log_event_def)
  have d: "resolve_descriptor_strs stuck_clock_env None ([frame_a] @ [frame_b]) =
             Inr (generic_descriptor_strs ''0.125'')"
    by (simp add: resolve_descriptor_strs_def compute_delta_def truediv_def frame_a_def
        frame_b_def str_float_def stuck_clock_env_def demo_env_def demo_float_truediv_def
        demo_np_std_def demo_str_real_def)
  have m: "files (log_event GetPreviousData (log_event (ReadStructures ''new.xyz'') w)) ''GAP.xml'' =
             Some model"
    by (simp add: log_event_def assms(2))
  have c: "str_real stuck_clock_env (clock stuck_clock_env n) = ''100.0''" for n
    by (simp add: stuck_clock_env_def demo_env_def demo_str_real_def)
  have f: "format_xyz stuck_clock_env [frame_a, frame_b] = ''AB''"
    by (simp add: stuck_clock_env_def demo_env_def frame_a_def frame_b_def)
  have s: "shell stuck_clock_env cmd fs =
             (\<lparr>returncode = 0, stdout = ''fit done'', stderr = []\<rparr>,
              fs(''GAP.xml'' \<mapsto> ''new model''))" for cmd fs
    by (simp add: stuck_clock_env_def demo_env_def demo_shell_def)
  show ?thesis
    by (simp add: refit_generic_exec [OF r g d] prepare_fit_present [OF r g d m]
        run_fit_success [OF s] c f log_event_def fun_upd_twist)
qed

text \<open>
  C7 as the specification states it, each backup name unique and no backup ever
  overwritten, rests on the clock, not on the code: \<open>shutil.move\<close> does not look
  at its target. With a clock that reads the same at two calls, the second call moves
  the model of the first call onto the backup of the first call, and the model that
  backup held is stored nowhere any more.
\<close>

theorem backup_overwritten_counterexample:
  "files (snd (refit_generic stuck_clock_env (demo_state None) None None demo_world))
     ''save__100.0__GAP.xml'' = Some ''old model''
   \<and> files (snd (refit_generic stuck_clock_env (demo_state None) None None
                   (snd (refit_generic stuck_clock_env (demo_state None) None None demo_world))))
       ''save__100.0__GAP.xml'' = Some ''new model''"
proof -
  have a: "files demo_world ''new.xyz'' = Some ''A''"
          "files demo_world ''GAP.xml'' = Some ''old model''"
    by (simp_all add: demo_world_def)
  have b: "files (snd (refit_generic stuck_clock_env (demo_state None) None None demo_world))
             ''new.xyz'' = Some ''A''"
          "files (snd (refit_generic stuck_clock_env (demo_state None) None None demo_world))
             ''GAP.xml'' = Some ''new model''"
    by (simp_all add: stuck_clock_run [OF a] a)
  show ?thesis
    by (simp add: stuck_clock_run [OF b] stuck_clock_run [OF a])
qed

text \<open>
  C8. When the external process of \<open>refit_generic\<close> ends with a status other than
  zero, \<open>refit_generic\<close> raises \<open>CalledProcessError\<close>, which holds the status,
  the command and the captured standard output and standard error. The files are
  then as the process left them: nothing is written after it (no capture file, no
  clock reading for a capture name) and nothing done before it, the move of the
  previous model and the write of \<open>train.xyz\<close>, is undone. The command was started
  once.
\<close>

theorem fit_failure_raises:
  assumes "ase_io_read env (xyz_filename state) w = (Inr from_file, wa)"
      and "call_get_previous_data state wa = (Inr previous, wb)"
      and "resolve_descriptor_strs env descriptor_strs (from_file @ previous) = Inr ds"
      and "shell env (fit_str ''GAP.xml'' (resolve_default_sigma default_sigma) ds)
             (files (snd (prepare_fit env state descriptor_strs default_sigma w))) = (proc, fs')"
      and "returncode proc \<noteq> 0"
    shows "fst (refit_generic env state descriptor_strs default_sigma w) =
             Inl (CalledProcessError (returncode proc)
                    (fit_str ''GAP.xml'' (resolve_default_sigma default_sigma) ds)
                    (stdout proc) (stderr proc))
           \<and> files (snd (refit_generic env state descriptor_strs default_sigma w)) = fs'
           \<and> ticks (snd (refit_generic env state descriptor_strs default_sigma w)) =
               ticks (snd (prepare_fit env state descriptor_strs default_sigma w))
           \<and> trace (snd (refit_generic env state descriptor_strs default_sigma w)) =
               trace w @
               [ReadStructures (xyz_filename state), GetPreviousData, IsFile ''GAP.xml''] @
               (case files wb ''GAP.xml'' of
                  None \<Rightarrow> []
                | Some model \<Rightarrow>
                    [Move ''GAP.xml''
                       (''save__'' @ str_real env (clock env (ticks w)) @ ''__GAP.xml'')]) @
               [WriteStructures ''train.xyz'' (from_file @ previous),
                Run (fit_str ''GAP.xml'' (resolve_default_sigma default_sigma) ds)]"
  by (simp add: refit_generic_exec [OF assms(1-3)] run_fit_failure [OF assms(4,5)]
      log_event_def prepare_fit_trace [OF assms(1-3)])

lemma failing_reads:
  "ase_io_read failing_env (xyz_filename (demo_state None)) demo_world =
     (Inr [frame_a], demo_world\<lparr>trace := [ReadStructures ''new.xyz'']\<rparr>)"
  "call_get_previous_data (demo_state None) (demo_world\<lparr>trace := [ReadStructures ''new.xyz'']\<rparr>) =
     (Inr [frame_b], demo_world\<lparr>trace := [ReadStructures ''new.xyz'', GetPreviousData]\<rparr>)"
  "resolve_descriptor_strs failing_env (Some ''my descriptors'') ([frame_a] @ [frame_b]) =
     Inr ''my descriptors''"
  by (simp_all add: ase_io_read_def call_get_previous_data_def failing_env_def demo_env_def
      demo_state_def demo_world_def log_event_def resolve_descriptor_strs_def)

text \<open>
  In the small world with a failing process: the error holds both streams, the
  previous model stays under its backup name, \<open>train.xyz\<close> stays written, and there
  is neither a new model nor a capture file.
\<close>

theorem fit_failure_raises_witness:
  "fst (refit_generic failing_env (demo_state None) (Some ''my descriptors'') (Some ''1 2 3 4'')
          demo_world) =
     Inl (CalledProcessError 1
            (fit_str ''GAP.xml'' ''1 2 3 4'' ''my descriptors'') ''reading'' ''no memory'')
   \<and> files (snd (refit_generic failing_env (demo_state None) (Some ''my descriptors'')
                   (Some ''1 2 3 4'') demo_world)) =
       [''new.xyz'' \<mapsto> ''A'', ''save__100.0__GAP.xml'' \<mapsto> ''old model'', ''train.xyz'' \<mapsto> ''AB'']
   \<and> trace (snd (refit_generic failing_env (demo_state None) (Some ''my descriptors'')
                   (Some ''1 2 3 4'') demo_world)) =
       [ReadStructures ''new.xyz'', GetPreviousData, IsFile ''GAP.xml'',
        Move ''GAP.xml'' ''save__100.0__GAP.xml'',
        WriteStructures ''train.xyz'' [frame_a, frame_b],
        Run (fit_str ''GAP.xml'' ''1 2 3 4'' ''my descriptors'')]"
proof -
  have m: "files (demo_world\<lparr>trace := [ReadStructures ''new.xyz'', GetPreviousData]\<rparr>) ''GAP.xml'' =
             Some ''old model''"
    by (simp add: demo_world_def)
  have c: "str_real failing_env (clock failing_env 0) = ''100.0''"
    by (simp add: failing_env_def demo_env_def demo_str_real_def)
  have f: "format_xyz failing_env [frame_a, frame_b] = ''AB''"
    by (simp add: failing_env_def demo_env_def frame_a_def frame_b_def)
  have p: "files (snd (prepare_fit failing_env (demo_state None) (Some ''my descriptors'')
                         (Some ''1 2 3 4'') demo_world)) =
             [''new.xyz'' \<mapsto> ''A'', ''save__100.0__GAP.xml'' \<mapsto> ''old model'',
              ''train.xyz'' \<mapsto> ''AB'']"
  proof (rule ext)
    fix name
    have d: "files demo_world = [''new.xyz'' \<mapsto> ''A'', ''GAP.xml'' \<mapsto> ''old model'']"
            "ticks demo_world = 0"
      by (simp_all add: demo_world_def)
    show "files (snd (prepare_fit failing_env (demo_state None) (Some ''my descriptors'')
                         (Some ''1 2 3 4'') demo_world)) name =
            [''new.xyz'' \<mapsto> ''A'', ''save__100.0__GAP.xml'' \<mapsto> ''old model'',
             ''train.xyz'' \<mapsto> ''AB''] name"
      by (simp add: prepare_fit_present [OF failing_reads m] c f d)
  qed
  have s: "shell failing_env
             (fit_str ''GAP.xml'' (resolve_default_sigma (Some ''1 2 3 4'')) ''my descriptors'')
             (files (snd (prepare_fit failing_env (demo_state None) (Some ''my descriptors'')
                            (Some ''1 2 3 4'') demo_world))) =
             (\<lparr>returncode = 1, stdout = ''reading'', stderr = ''no memory''\<rparr>,
              [''new.xyz'' \<mapsto> ''A'', ''save__100.0__GAP.xml'' \<mapsto> ''old model'',
               ''train.xyz'' \<mapsto> ''AB''])"
  proof -
    have "shell failing_env cmd fs =
            (\<lparr>returncode = 1, stdout = ''reading'', stderr = ''no memory''\<rparr>, fs)" for cmd fs
      by (simp add: failing_env_def failing_shell_def)
    then show ?thesis
      by (simp add: p)
  qed
  have n: "returncode \<lparr>returncode = 1, stdout = ''reading'', stderr = ''no memory''\<rparr> \<noteq> 0"
    by simp
  have t: "trace demo_world = []" "ticks demo_world = 0"
          "xyz_filename (demo_state None) = ''new.xyz''"
          "files demo_world ''GAP.xml'' = Some ''old model''"
    by (simp_all add: demo_world_def demo_state_def)
  show ?thesis
    using fit_failure_raises [OF failing_reads s n]
    by (simp add: c t resolve_default_sigma_def)
qed

section \<open>The specialised strategy\<close>

text \<open>
  C10. \<open>refit_turbo_si_c\<close> reads the structure file and calls
  \<open>get_previous_data()\<close> twice: once itself, for \<open>delta\<close>, and once more inside
  \<open>refit_generic\<close>. The descriptors carry the \<open>delta\<close> of the first reading;
  \<open>train.xyz\<close> holds the structures of the second.
\<close>

theorem turbo_reads_twice:
  assumes "ase_io_read env (xyz_filename state) w = (Inr file1, wa)"
      and "call_get_previous_data state wa = (Inr previous1, wb)"
      and "compute_delta env (file1 @ previous1) = Inr delta"
      and "ase_io_read env (xyz_filename state) wb = (Inr file2, wc)"
      and "call_get_previous_data state wc = (Inr previous2, wd)"
    shows "refit_turbo_si_c env state w =
             run_fit env
               (fit_str ''GAP.xml'' turbo_default_sigma
                  (turbo_descriptor_strs (str_float env delta)))
               (snd (prepare_fit env state (Some (turbo_descriptor_strs (str_float env delta)))
                       (Some turbo_default_sigma) wb))
           \<and> files (snd (prepare_fit env state (Some (turbo_descriptor_strs (str_float env delta)))
                           (Some turbo_default_sigma) wb)) ''train.xyz'' =
               Some (format_xyz env (file2 @ previous2))
           \<and> trace (snd (prepare_fit env state (Some (turbo_descriptor_strs (str_float env delta)))
                           (Some turbo_default_sigma) wb)) =
               trace w @
               [ReadStructures (xyz_filename state), GetPreviousData,
                ReadStructures (xyz_filename state), GetPreviousData, IsFile ''GAP.xml''] @
               (case files wd ''GAP.xml'' of
                  None \<Rightarrow> []
                | Some model \<Rightarrow>
                    [Move ''GAP.xml''
                       (''save__'' @ str_real env (clock env (ticks w)) @ ''__GAP.xml'')]) @
               [WriteStructures ''train.xyz'' (file2 @ previous2)]"
proof -
  have r: "read_frames_train env state w = (Inr (file1 @ previous1), wb)"
    using assms(1,2) by (rule read_frames_train_exec)
  have c: "refit_turbo_si_c env state w =
             refit_generic env state (Some (turbo_descriptor_strs (str_float env delta)))
               (Some turbo_default_sigma) wb"
    using r assms(3) by (rule refit_turbo_si_c_exec)
  show ?thesis
    using refit_generic_exec [OF assms(4,5) resolve_descriptor_strs_given]
      prepare_fit_train_file [OF assms(4,5) resolve_descriptor_strs_given]
      prepare_fit_trace [OF assms(4,5) resolve_descriptor_strs_given]
    by (simp add: c resolve_default_sigma_def reads_world [OF assms(1,2)] split: option.splits)
qed

text \<open>
  In the small world with a state whose method returns one structure at its first
  call and two from then on: \<open>delta\<close> is that of the two structures of the first
  reading, 0.125, while \<open>train.xyz\<close> holds the three structures of the second.
\<close>

theorem turbo_reads_twice_witness:
  "refit_turbo_si_c demo_env growing_state demo_world =
     run_fit demo_env
       (fit_str ''GAP.xml'' turbo_default_sigma (turbo_descriptor_strs ''0.125''))
       (snd (prepare_fit demo_env growing_state (Some (turbo_descriptor_strs ''0.125''))
               (Some turbo_default_sigma)
               (demo_world\<lparr>files := (files demo_world)(''calls'' \<mapsto> ''1''),
                             trace := [ReadStructures ''new.xyz'', GetPreviousData]\<rparr>)))
   \<and> files (snd (prepare_fit demo_env growing_state (Some (turbo_descriptor_strs ''0.125''))
               (Some turbo_default_sigma)
               (demo_world\<lparr>files := (files demo_world)(''calls'' \<mapsto> ''1''),
                             trace := [ReadStructures ''new.xyz'', GetPreviousData]\<rparr>)))
       ''train.xyz'' = Some ''ABA''
   \<and> trace (snd (prepare_fit demo_env growing_state (Some (turbo_descriptor_strs ''0.125''))
               (Some turbo_default_sigma)
               (demo_world\<lparr>files := (files demo_world)(''calls'' \<mapsto> ''1''),
                             trace := [ReadStructures ''new.xyz'', GetPreviousData]\<rparr>))) =
       [ReadStructures ''new.xyz'', GetPreviousData, ReadStructures ''new.xyz'', GetPreviousData,
        IsFile ''GAP.xml'', Move ''GAP.xml'' ''save__100.0__GAP.xml'',
        WriteStructures ''train.xyz'' [frame_a, frame_b, frame_a]]"
proof -
  have r1: "ase_io_read demo_env (xyz_filename growing_state) demo_world =
              (Inr [frame_a], demo_world\<lparr>trace := [ReadStructures ''new.xyz'']\<rparr>)"
    by (simp add: ase_io_read_def demo_env_def growing_state_def demo_world_def log_event_def)
  have g1: "call_get_previous_data growing_state
              (demo_world\<lparr>trace := [ReadStructures ''new.xyz'']\<rparr>) =
              (Inr [frame_b],
               demo_world\<lparr>files := (files demo_world)(''calls'' \<mapsto> ''1''),
                            trace := [ReadStructures ''new.xyz'', GetPreviousData]\<rparr>)"
    by (simp add: call_get_previous_data_def growing_state_def demo_world_def log_event_def)
  have d: "compute_delta demo_env ([frame_a] @ [frame_b]) = Inr (Finite (1 / 8))"
    by (rule demo_delta)
  have r2: "ase_io_read demo_env (xyz_filename growing_state)
              (demo_world\<lparr>files := (files demo_world)(''calls'' \<mapsto> ''1''),
                            trace := [ReadStructures ''new.xyz'', GetPreviousData]\<rparr>) =
              (Inr [frame_a],
               demo_world\<lparr>files := (files demo_world)(''calls'' \<mapsto> ''1''),
                            trace := [ReadStructures ''new.xyz'', GetPreviousData,
                                      ReadStructures ''new.xyz'']\<rparr>)"
    by (simp add: ase_io_read_def demo_env_def growing_state_def demo_world_def log_event_def)
  have g2: "call_get_previous_data growing_state
              (demo_world\<lparr>files := (files demo_world)(''calls'' \<mapsto> ''1''),
                            trace := [ReadStructures ''new.xyz'', GetPreviousData,
                                      ReadStructures ''new.xyz'']\<rparr>) =
              (Inr [frame_b, frame_a],
               demo_world\<lparr>files := (files demo_world)(''calls'' \<mapsto> ''1''),
                            trace := [ReadStructures ''new.xyz'', GetPreviousData,
                                      ReadStructures ''new.xyz'', GetPreviousData]\<rparr>)"
    by (simp add: call_get_previous_data_def growing_state_def demo_world_def log_event_def)
  have s: "str_float demo_env (Finite (1 / 8)) = ''0.125''"
          "str_real demo_env (clock demo_env (ticks demo_world)) = ''100.0''"
    by (simp_all add: str_float_def demo_env_def demo_str_real_def demo_world_def)
  have f: "format_xyz demo_env [frame_a, frame_b, frame_a] = ''ABA''"
    by (simp add: demo_env_def frame_a_def frame_b_def)
  have t: "trace demo_world = []" "xyz_filename growing_state = ''new.xyz''"
          "files demo_world ''GAP.xml'' = Some ''old model''"
    by (simp_all add: demo_world_def growing_state_def)
  show ?thesis
    using turbo_reads_twice [OF r1 g1 d r2 g2]
    by (simp add: s f t)
qed

end
